theory Spec2Isabelle
  imports Main
begin

section \<open>Values shared by the modules\<close>

text \<open>
  An instance of Python's class \<^verbatim>\<open>Exception\<close>, with its message. This is what a
  handler \<^verbatim>\<open>except Exception\<close> catches, and what the calls on the browser raise in
  the model: cancellation at an \<^verbatim>\<open>await\<close> is not modelled.
\<close>

datatype exn = Exception string

text \<open>
  What a call of the source reader can raise: an instance of \<^verbatim>\<open>Exception\<close>, or an
  exception outside that class, such as \<^verbatim>\<open>KeyboardInterrupt\<close>, with its name. A
  handler \<^verbatim>\<open>except Exception\<close> lets the second kind through.
\<close>

datatype base_exception = Exc exn | NonExc string

text \<open>A value stored in the dictionary that \<^verbatim>\<open>get_playlist_info\<close> builds.\<close>

datatype pyval = PyStr string | PyInt int | PyDict "(string \<times> string) list"

type_synonym dict = "(string \<times> pyval) list"

text \<open>\<^verbatim>\<open>d[k]\<close>: a missing key raises.\<close>

definition getitem :: "dict \<Rightarrow> string \<Rightarrow> base_exception + pyval" where
  "getitem d k =
     (case map_of d k of None \<Rightarrow> Inl (Exc (Exception ''KeyError'')) | Some v \<Rightarrow> Inr v)"

text \<open>
  \<^verbatim>\<open>d[k]\<close> used as a string. \<^verbatim>\<open>get_playlist_info\<close> only stores strings under
  \<^verbatim>\<open>'name'\<close>, so the last case is never taken by a dictionary of the program.
\<close>

definition str_item :: "dict \<Rightarrow> string \<Rightarrow> base_exception + string" where
  "str_item d k =
     (case getitem d k of
        Inl e \<Rightarrow> Inl e
      | Inr (PyStr s) \<Rightarrow> Inr s
      | Inr _ \<Rightarrow> Inl (Exc (Exception ''TypeError'')))"

text \<open>\<^verbatim>\<open>sep.join(xs)\<close>\<close>

fun join :: "string \<Rightarrow> string list \<Rightarrow> string" where
  "join sep [] = []"
| "join sep [x] = x"
| "join sep (x # y # ys) = x @ sep @ join sep (y # ys)"

section \<open>spotify\_client.py\<close>

subsection \<open>What the Spotify Web API hands back\<close>

text \<open>
  The parsed JSON of the API, with the fields the program reads:
  \<^verbatim>\<open>item['track']\<close> (null for an entry that is no longer available), the track object,
  the page of a listing with its \<^verbatim>\<open>items\<close> and its \<^verbatim>\<open>next\<close> cursor, and the
  playlist object.
\<close>

record track_obj =
  tr_type :: string
  tr_name :: string
  tr_artists :: "string list"
  tr_album :: string
  tr_id :: string
  tr_external_urls :: "(string \<times> string) list"

record playlist_item =
  track :: "track_obj option"

record page =
  items :: "playlist_item list"
  next_url :: "string option"

record playlist_obj =
  pl_name :: string
  pl_description :: string
  pl_tracks_total :: int
  pl_owner_display_name :: string
  pl_external_urls :: "(string \<times> string) list"

text \<open>
  The object \<^verbatim>\<open>self.sp\<close>: the three calls of the library that the client makes. Each
  either raises or returns; \<^verbatim>\<open>sp.next\<close> may return \<^verbatim>\<open>None\<close>.
\<close>

record spotipy =
  playlist :: "string \<Rightarrow> base_exception + playlist_obj"
  playlist_tracks :: "string \<Rightarrow> base_exception + page"
  sp_next :: "page \<Rightarrow> base_exception + page option"

subsection \<open>get\_playlist\_tracks\<close>

text \<open>The dictionary built for one track (lines 50-56), as a record of its five keys.\<close>

record track_info =
  name :: string
  artist :: string
  album :: string
  spotify_id :: string
  external_urls :: "(string \<times> string) list"

definition mk_track_info :: "track_obj \<Rightarrow> track_info" where
  "mk_track_info t =
     \<lparr> name = tr_name t,
       artist = join '', '' (tr_artists t),
       album = tr_album t,
       spotify_id = tr_id t,
       external_urls = tr_external_urls t \<rparr>"

text \<open>The \<^verbatim>\<open>for item in results['items']\<close> loop, appending to \<^verbatim>\<open>tracks\<close>.\<close>

fun for_items :: "playlist_item list \<Rightarrow> track_info list \<Rightarrow> track_info list" where
  "for_items [] tracks = tracks"
| "for_items (item # rest) tracks =
     for_items rest
       (case track item of
          None \<Rightarrow> tracks
        | Some t \<Rightarrow> if tr_type t = ''track'' then tracks @ [mk_track_info t] else tracks)"

text \<open>Truth value of \<^verbatim>\<open>results['next']\<close>: null and the empty string are false.\<close>

definition truthy :: "string option \<Rightarrow> bool" where
  "truthy s = (case s of None \<Rightarrow> False | Some u \<Rightarrow> u \<noteq> [])"

text \<open>
  The \<^verbatim>\<open>while results:\<close> loop. It ends when a page has no cursor or \<^verbatim>\<open>sp.next\<close>
  returns \<^verbatim>\<open>None\<close>; on a listing whose cursors never end it does not return, which is
  the value \<open>None\<close> here. An exception leaves the loop at once.
\<close>

partial_function (option) while_results ::
  "spotipy \<Rightarrow> page option \<Rightarrow> track_info list \<Rightarrow>
   (base_exception + track_info list) option" where
  "while_results sp results tracks =
     (case results of
        None \<Rightarrow> Some (Inr tracks)
      | Some r \<Rightarrow>
          (let tracks' = for_items (items r) tracks in
           if truthy (next_url r)
           then (case sp_next sp r of
                   Inl e \<Rightarrow> Some (Inl e)
                 | Inr results' \<Rightarrow> while_results sp results' tracks')
           else while_results sp None tracks'))"

text \<open>The handler of lines 65-67 logs and raises the same exception again.\<close>

definition get_playlist_tracks ::
  "spotipy \<Rightarrow> string \<Rightarrow> (base_exception + track_info list) option" where
  "get_playlist_tracks sp playlist_id =
     (case playlist_tracks sp playlist_id of
        Inl e \<Rightarrow> Some (Inl e)
      | Inr results \<Rightarrow> while_results sp (Some results) [])"

subsection \<open>get\_playlist\_info\<close>

definition get_playlist_info :: "spotipy \<Rightarrow> string \<Rightarrow> base_exception + dict" where
  "get_playlist_info sp playlist_id =
     (case playlist sp playlist_id of
        Inl e \<Rightarrow> Inl e
      | Inr p \<Rightarrow>
          Inr [(''name'', PyStr (pl_name p)),
               (''description'', PyStr (pl_description p)),
               (''total_tracks'', PyInt (pl_tracks_total p)),
               (''owner'', PyStr (pl_owner_display_name p)),
               (''external_urls'', PyDict (pl_external_urls p))])"

subsection \<open>A listing served in pages\<close>

text \<open>
  \<open>serves sp r pages\<close>: starting from the page \<open>r\<close>, the service hands out the listing
  as the pages \<open>pages\<close>, one after the other: every page but the last carries a cursor and
  \<^verbatim>\<open>sp.next\<close> returns the following page; the last page has no cursor.
\<close>

fun serves :: "spotipy \<Rightarrow> page \<Rightarrow> playlist_item list list \<Rightarrow> bool" where
  "serves sp r [] = False"
| "serves sp r [its] = (items r = its \<and> \<not> truthy (next_url r))"
| "serves sp r (its # rest) =
     (items r = its \<and> truthy (next_url r) \<and>
      (case sp_next sp r of Inr (Some r') \<Rightarrow> serves sp r' rest | _ \<Rightarrow> False))"

text \<open>The track objects of a listing whose media type is \<^verbatim>\<open>track\<close>, in listing order.\<close>

definition track_objects :: "playlist_item list \<Rightarrow> track_obj list" where
  "track_objects its = filter (\<lambda>t. tr_type t = ''track'') (List.map_filter track its)"

section \<open>ug\_client.py\<close>

subsection \<open>Computations on the browser\<close>

text \<open>
  The browser and the site behind it are a state \<open>'w\<close> that every call of the automation
  library reads and changes. A call either raises or returns.
\<close>

type_synonym ('a, 'w) io = "'w \<Rightarrow> (exn + 'a) \<times> 'w"

definition ret :: "'a \<Rightarrow> ('a, 'w) io" where
  "ret a = (\<lambda>w. (Inr a, w))"

definition bnd :: "('a, 'w) io \<Rightarrow> ('a \<Rightarrow> ('b, 'w) io) \<Rightarrow> ('b, 'w) io" where
  "bnd m f = (\<lambda>w. case m w of (Inl e, w') \<Rightarrow> (Inl e, w') | (Inr a, w') \<Rightarrow> f a w')"

text \<open>\<^verbatim>\<open>try: m except Exception as e: h e\<close>\<close>

definition try_except :: "('a, 'w) io \<Rightarrow> (exn \<Rightarrow> ('a, 'w) io) \<Rightarrow> ('a, 'w) io" where
  "try_except m h = (\<lambda>w. case m w of (Inl e, w') \<Rightarrow> h e w' | (Inr a, w') \<Rightarrow> (Inr a, w'))"

text \<open>
  The calls of the automation library that the client makes, on the browser, on the page
  and on an element handle \<open>'el\<close>. Timeouts are in milliseconds; a wait that times out
  raises.
\<close>

record ('w, 'el) playwright =
  async_playwright_start :: "(unit, 'w) io"
  chromium_launch :: "bool \<Rightarrow> (unit, 'w) io"
  browser_new_page :: "(unit, 'w) io"
  browser_close :: "(unit, 'w) io"
  playwright_stop :: "(unit, 'w) io"
  goto :: "string \<Rightarrow> (unit, 'w) io"
  wait_for_selector :: "string \<Rightarrow> nat \<Rightarrow> (unit, 'w) io"
  wait_for_timeout :: "nat \<Rightarrow> (unit, 'w) io"
  fill :: "string \<Rightarrow> string \<Rightarrow> (unit, 'w) io"
  click :: "string \<Rightarrow> (unit, 'w) io"
  query_selector :: "string \<Rightarrow> ('el option, 'w) io"
  query_selector_all :: "string \<Rightarrow> ('el list, 'w) io"
  el_text_content :: "'el \<Rightarrow> (string option, 'w) io"
  el_click :: "'el \<Rightarrow> (unit, 'w) io"
  el_fill :: "'el \<Rightarrow> string \<Rightarrow> (unit, 'w) io"

subsection \<open>Strings\<close>

text \<open>
  \<^verbatim>\<open>str.strip()\<close> removes leading and trailing whitespace. A character is a code point
  below 256; these are the ones Python counts as whitespace.
\<close>

definition isspace :: "char \<Rightarrow> bool" where
  "isspace c = ((of_char c :: nat) \<in> {9, 10, 11, 12, 13, 28, 29, 30, 31, 32, 133, 160})"

definition strip :: "string \<Rightarrow> string" where
  "strip s = rev (dropWhile isspace (rev (dropWhile isspace s)))"

definition apostrophe :: string where
  "apostrophe = [CHR 0x27]"

subsection \<open>start\_browser and close\_browser\<close>

definition start_browser :: "('w, 'el) playwright \<Rightarrow> bool \<Rightarrow> (unit, 'w) io" where
  "start_browser pw headless =
     try_except
       (bnd (async_playwright_start pw) (\<lambda>_.
        bnd (chromium_launch pw headless) (\<lambda>_.
        browser_new_page pw)))
       (\<lambda>e w. (Inl e, w))"

text \<open>
  \<^verbatim>\<open>close_browser\<close> as \<^verbatim>\<open>__aexit__\<close> runs it: after \<^verbatim>\<open>start_browser\<close> has
  returned, so both \<^verbatim>\<open>self.browser\<close> and \<^verbatim>\<open>self.playwright\<close> are set.
\<close>

definition close_browser :: "('w, 'el) playwright \<Rightarrow> (unit, 'w) io" where
  "close_browser pw =
     try_except
       (bnd (browser_close pw) (\<lambda>_. playwright_stop pw))
       (\<lambda>e. ret ())"

subsection \<open>login\<close>

definition login :: "('w, 'el) playwright \<Rightarrow> string \<Rightarrow> string \<Rightarrow> (bool, 'w) io" where
  "login pw username password =
     try_except
       (bnd (goto pw ''https://www.ultimate-guitar.com/user/signin'') (\<lambda>_.
        bnd (wait_for_selector pw ''input[name='username']'' 10000) (\<lambda>_.
        bnd (fill pw ''input[name='username']'' username) (\<lambda>_.
        bnd (fill pw ''input[name='password']'' password) (\<lambda>_.
        bnd (click pw ''button[type='submit']'') (\<lambda>_.
        try_except
          (bnd (wait_for_selector pw ''.js-header-user-menu'' 10000) (\<lambda>_. ret True))
          (\<lambda>_.
             bnd (query_selector pw ''.error-message'') (\<lambda>error_element.
             case error_element of
               Some el \<Rightarrow> bnd (el_text_content pw el) (\<lambda>error_text. ret False)
             | None \<Rightarrow> ret False))))))))
       (\<lambda>e. ret False)"

subsection \<open>get\_existing\_playlists\<close>

text \<open>The loop over the name elements: a text that is null or empty is not appended.\<close>

primrec for_elements ::
  "('w, 'el) playwright \<Rightarrow> 'el list \<Rightarrow> string list \<Rightarrow> (string list, 'w) io" where
  "for_elements pw [] playlists = ret playlists"
| "for_elements pw (element # rest) playlists =
     bnd (el_text_content pw element) (\<lambda>name.
       for_elements pw rest
         (case name of
            None \<Rightarrow> playlists
          | Some n \<Rightarrow> if n \<noteq> [] then playlists @ [strip n] else playlists))"

definition get_existing_playlists :: "('w, 'el) playwright \<Rightarrow> (string list, 'w) io" where
  "get_existing_playlists pw =
     try_except
       (bnd (goto pw ''https://www.ultimate-guitar.com/user/playlists'') (\<lambda>_.
        bnd (wait_for_selector pw ''.playlist-item, .user-playlist'' 10000) (\<lambda>_.
        bnd (query_selector_all pw ''.playlist-name, .playlist-title'') (\<lambda>playlist_elements.
        for_elements pw playlist_elements []))))
       (\<lambda>e. ret [])"

subsection \<open>create\_playlist\<close>

definition create_playlist ::
  "('w, 'el) playwright \<Rightarrow> string \<Rightarrow> string \<Rightarrow> (bool, 'w) io" where
  "create_playlist pw playlist_name description =
     try_except
       (bnd (goto pw ''https://www.ultimate-guitar.com/user/playlists'') (\<lambda>_.
        bnd (query_selector pw ''a[href*='create']'') (\<lambda>create_button.
        bnd (case create_button of
               None \<Rightarrow> query_selector pw ''.btn-create-playlist''
             | Some b \<Rightarrow> ret (Some b)) (\<lambda>create_button.
        bnd (case create_button of
               Some b \<Rightarrow> el_click pw b
             | None \<Rightarrow> click pw ''.fa-plus, .icon-plus, [data-action='create']'') (\<lambda>_.
        bnd (wait_for_selector pw ''input[name='name'], input[placeholder*='name']'' 10000) (\<lambda>_.
        bnd (fill pw ''input[name='name'], input[placeholder*='name']'' playlist_name) (\<lambda>_.
        bnd (query_selector pw
               ''textarea[name='description'], textarea[placeholder*='description']'')
          (\<lambda>desc_field.
        bnd (case desc_field of
               Some d \<Rightarrow> if description \<noteq> [] then el_fill pw d description else ret ()
             | None \<Rightarrow> ret ()) (\<lambda>_.
        bnd (click pw ''button[type='submit'], .btn-save, .btn-create'') (\<lambda>_.
        bnd (wait_for_timeout pw 2000) (\<lambda>_.
        ret True)))))))))))
       (\<lambda>e. ret False)"

subsection \<open>search\_and\_add\_song\<close>

definition search_and_add_song ::
  "('w, 'el) playwright \<Rightarrow> string \<Rightarrow> string \<Rightarrow> string \<Rightarrow> (bool, 'w) io" where
  "search_and_add_song pw song_name artist_name playlist_name =
     try_except
       (let search_query = strip (song_name @ '' '' @ artist_name) in
        bnd (goto pw
               (''https://www.ultimate-guitar.com/search.php?search_type=title&value='' @
                search_query)) (\<lambda>_.
        bnd (wait_for_selector pw ''.js-search-results, .search-results'' 10000) (\<lambda>_.
        bnd (query_selector pw ''.js-search-results .js-click-track, .search-results a'')
          (\<lambda>first_result.
        case first_result of
          Some fr \<Rightarrow>
            bnd (el_click pw fr) (\<lambda>_.
            bnd (wait_for_timeout pw 2000) (\<lambda>_.
            bnd (query_selector pw
                   ''.js-add-to-playlist, .btn-add-playlist, [data-action*='playlist']'')
              (\<lambda>add_button.
            case add_button of
              Some ab \<Rightarrow>
                bnd (el_click pw ab) (\<lambda>_.
                bnd (wait_for_selector pw ''.playlist-modal, .modal-playlist'' 5000) (\<lambda>_.
                bnd (query_selector pw
                       (''[data-playlist-name='' @ apostrophe @ playlist_name @ apostrophe @
                        ''], .playlist-item:has-text('' @ apostrophe @ playlist_name @
                        apostrophe @ '')'')) (\<lambda>playlist_option.
                case playlist_option of
                  Some po \<Rightarrow> bnd (el_click pw po) (\<lambda>_. ret True)
                | None \<Rightarrow> ret False)))
            | None \<Rightarrow> ret False)))
        | None \<Rightarrow> ret False))))
       (\<lambda>e. ret False)"

section \<open>syncer.py\<close>

subsection \<open>The client as the sequencer uses it\<close>

text \<open>
  The object bound by \<^verbatim>\<open>async with UltimateGuitarClient(...) as ug_client\<close>, as the
  methods \<^verbatim>\<open>sync_playlist\<close> awaits. Each awaited method may raise, which is what the
  two handlers of \<^verbatim>\<open>sync_playlist\<close> are written for; \<^verbatim>\<open>__aexit__\<close> is
  \<^verbatim>\<open>close_browser\<close>, which handles every exception itself and so only changes the
  state.
\<close>

record 'w ug_client =
  aenter :: "(unit, 'w) io"
  aexit :: "'w \<Rightarrow> 'w"
  m_login :: "(bool, 'w) io"
  m_get_existing_playlists :: "(string list, 'w) io"
  m_create_playlist :: "string \<Rightarrow> string \<Rightarrow> (bool, 'w) io"
  m_search_and_add_song :: "string \<Rightarrow> string \<Rightarrow> string \<Rightarrow> (bool, 'w) io"

text \<open>The client that the source constructs, over the automation library.\<close>

definition UltimateGuitarClient ::
  "('w, 'el) playwright \<Rightarrow> string \<Rightarrow> string \<Rightarrow> bool \<Rightarrow> 'w ug_client" where
  "UltimateGuitarClient pw username password headless =
     \<lparr> aenter = start_browser pw headless,
       aexit = (\<lambda>w. snd (close_browser pw w)),
       m_login = login pw username password,
       m_get_existing_playlists = get_existing_playlists pw,
       m_create_playlist = create_playlist pw,
       m_search_and_add_song = search_and_add_song pw \<rparr>"

text \<open>The fields of the configuration that the sequencer reads.\<close>

record config =
  spotify_playlist_id :: string
  ug_username :: string
  ug_password :: string
  headless_browser :: bool

subsection \<open>Runs\<close>

text \<open>
  A run of the sequencer carries the browser state and the calls made so far, in order,
  each with what it returned or raised.
\<close>

datatype event =
    GetPlaylistInfo "base_exception + dict"
  | GetPlaylistTracks "base_exception + track_info list"
  | StartBrowser "exn + unit"
  | CloseBrowser
  | Login "exn + bool"
  | GetExistingPlaylists "exn + string list"
  | CreatePlaylist string string "exn + bool"
  | SearchAndAddSong string string string "exn + bool"
  | Sleep nat

record 'w run =
  world :: 'w
  trace :: "event list"

text \<open>
  A step of the sequencer: it may not return (\<open>None\<close>, when the track listing never
  ends), raise, or return a value.
\<close>

type_synonym ('a, 'w) prog = "'w run \<Rightarrow> ((base_exception + 'a) \<times> 'w run) option"

definition pret :: "'a \<Rightarrow> ('a, 'w) prog" where
  "pret a = (\<lambda>s. Some (Inr a, s))"

definition pbnd :: "('a, 'w) prog \<Rightarrow> ('a \<Rightarrow> ('b, 'w) prog) \<Rightarrow> ('b, 'w) prog" where
  "pbnd m f =
     (\<lambda>s. case m s of
             None \<Rightarrow> None
           | Some (Inl e, s') \<Rightarrow> Some (Inl e, s')
           | Some (Inr a, s') \<Rightarrow> f a s')"

text \<open>\<^verbatim>\<open>try: m except Exception as e: h e\<close>\<close>

definition ptry :: "('a, 'w) prog \<Rightarrow> (exn \<Rightarrow> ('a, 'w) prog) \<Rightarrow> ('a, 'w) prog" where
  "ptry m h =
     (\<lambda>s. case m s of
             None \<Rightarrow> None
           | Some (Inl (Exc e), s') \<Rightarrow> h e s'
           | Some (Inl (NonExc b), s') \<Rightarrow> Some (Inl (NonExc b), s')
           | Some (Inr a, s') \<Rightarrow> Some (Inr a, s'))"

text \<open>A step that only evaluates an expression, which may raise.\<close>

definition plift :: "base_exception + 'a \<Rightarrow> ('a, 'w) prog" where
  "plift r = (\<lambda>s. Some (r, s))"

text \<open>A call of the source reader: it does not touch the browser.\<close>

definition reader_call ::
  "(base_exception + 'a \<Rightarrow> event) \<Rightarrow> (base_exception + 'a) option \<Rightarrow> ('a, 'w) prog" where
  "reader_call ev r =
     (\<lambda>s. case r of
             None \<Rightarrow> None
           | Some x \<Rightarrow> Some (x, s\<lparr>trace := trace s @ [ev x]\<rparr>))"

text \<open>
  A call of a method of the client, recorded with its outcome. What it raises is an
  instance of \<^verbatim>\<open>Exception\<close>.
\<close>

definition client_call :: "(exn + 'a \<Rightarrow> event) \<Rightarrow> ('a, 'w) io \<Rightarrow> ('a, 'w) prog" where
  "client_call ev m =
     (\<lambda>s. case m (world s) of
             (r, w') \<Rightarrow>
               Some (case r of Inl e \<Rightarrow> Inl (Exc e) | Inr a \<Rightarrow> Inr a,
                     \<lparr>world = w', trace = trace s @ [ev r]\<rparr>))"

text \<open>\<^verbatim>\<open>await asyncio.sleep(n)\<close>\<close>

definition sleep :: "nat \<Rightarrow> (unit, 'w) prog" where
  "sleep n = (\<lambda>s. Some (Inr (), s\<lparr>trace := trace s @ [Sleep n]\<rparr>))"

text \<open>
  \<^verbatim>\<open>async with client: body\<close>. When \<^verbatim>\<open>__aenter__\<close> raises, the body and
  \<^verbatim>\<open>__aexit__\<close> do not run; otherwise \<^verbatim>\<open>__aexit__\<close> runs however the body ends.
\<close>

definition async_with :: "'w ug_client \<Rightarrow> ('a, 'w) prog \<Rightarrow> ('a, 'w) prog" where
  "async_with ug body =
     pbnd (client_call StartBrowser (aenter ug)) (\<lambda>_ s.
       case body s of
         None \<Rightarrow> None
       | Some (r, s') \<Rightarrow>
           Some (r, \<lparr>world = aexit ug (world s'), trace = trace s' @ [CloseBrowser]\<rparr>))"

subsection \<open>PlaylistSyncer\<close>

record playlist_syncer =
  config :: config
  spotify_client :: "spotipy option"

text \<open>
  \<^verbatim>\<open>_initialize_spotify_client\<close>: the client already held, or else a new one. The
  argument \<open>SpotifyClient\<close> is the outcome of constructing the client from the
  configuration: an exception, or the client with its \<^verbatim>\<open>sp\<close> object.
\<close>

definition initialize_spotify_client ::
  "playlist_syncer \<Rightarrow> base_exception + spotipy \<Rightarrow> base_exception + spotipy" where
  "initialize_spotify_client self SpotifyClient =
     (case spotify_client self of
        None \<Rightarrow> SpotifyClient
      | Some sp \<Rightarrow> Inr sp)"

text \<open>\<^verbatim>\<open>a or b\<close> on an optional string: \<^verbatim>\<open>None\<close> and the empty string are false.\<close>

definition py_or :: "string option \<Rightarrow> string \<Rightarrow> string" where
  "py_or a b = (case a of None \<Rightarrow> b | Some s \<Rightarrow> if s = [] then b else s)"

subsection \<open>sync\_playlist\<close>

text \<open>
  One iteration of the loop over the tracks (lines 95-115), on the counters
  \<^verbatim>\<open>(successful_adds, failed_adds)\<close>. The delay is inside the \<^verbatim>\<open>try\<close>, after the
  counters are updated; the handler counts a failure.
\<close>

definition process_track ::
  "'w ug_client \<Rightarrow> string \<Rightarrow> track_info \<Rightarrow> nat \<times> nat \<Rightarrow> (nat \<times> nat, 'w) prog" where
  "process_track ug ug_playlist_name t counters =
     (case counters of (successful_adds, failed_adds) \<Rightarrow>
        ptry
          (pbnd (client_call (SearchAndAddSong (name t) (artist t) ug_playlist_name)
                   (m_search_and_add_song ug (name t) (artist t) ug_playlist_name))
             (\<lambda>success.
                let counters' = (if success then (successful_adds + 1, failed_adds)
                                 else (successful_adds, failed_adds + 1))
                in pbnd (sleep 2) (\<lambda>_. pret counters')))
          (\<lambda>e. pret (successful_adds, failed_adds + 1)))"

text \<open>The loop \<^verbatim>\<open>for i, track in enumerate(tracks, 1)\<close>.\<close>

primrec for_tracks ::
  "'w ug_client \<Rightarrow> string \<Rightarrow> track_info list \<Rightarrow> nat \<times> nat \<Rightarrow> (nat \<times> nat, 'w) prog" where
  "for_tracks ug ug_playlist_name [] counters = pret counters"
| "for_tracks ug ug_playlist_name (t # rest) counters =
     pbnd (process_track ug ug_playlist_name t counters)
       (\<lambda>counters'. for_tracks ug ug_playlist_name rest counters')"

text \<open>Lines 90-123: the counters start at zero, the loop runs, the result is reported.\<close>

definition add_tracks :: "'w ug_client \<Rightarrow> string \<Rightarrow> track_info list \<Rightarrow> (bool, 'w) prog" where
  "add_tracks ug ug_playlist_name tracks =
     pbnd (for_tracks ug ug_playlist_name tracks (0, 0))
       (\<lambda>(successful_adds, failed_adds). pret (successful_adds > 0))"

text \<open>Lines 70-123: the body of the \<^verbatim>\<open>async with\<close> block.\<close>

definition with_ug_client ::
  "'w ug_client \<Rightarrow> string \<Rightarrow> string \<Rightarrow> track_info list \<Rightarrow> (bool, 'w) prog" where
  "with_ug_client ug ug_playlist_name playlist_name tracks =
     pbnd (client_call Login (m_login ug)) (\<lambda>logged_in.
       if \<not> logged_in then pret False
       else
         pbnd (client_call GetExistingPlaylists (m_get_existing_playlists ug))
           (\<lambda>existing_playlists.
              if ug_playlist_name \<notin> set existing_playlists
              then
                (let description = ''Synced from Spotify playlist: '' @ playlist_name in
                 pbnd (client_call (CreatePlaylist ug_playlist_name description)
                         (m_create_playlist ug ug_playlist_name description))
                   (\<lambda>created.
                      if \<not> created then pret False
                      else add_tracks ug ug_playlist_name tracks))
              else add_tracks ug ug_playlist_name tracks))"

text \<open>Lines 48-123: the body of the outer \<^verbatim>\<open>try\<close>.\<close>

definition sync_body ::
  "playlist_syncer \<Rightarrow> base_exception + spotipy \<Rightarrow>
   (string \<Rightarrow> string \<Rightarrow> bool \<Rightarrow> 'w ug_client) \<Rightarrow> string option \<Rightarrow> (bool, 'w) prog" where
  "sync_body self SpotifyClient UGClient target_playlist_name =
     pbnd (plift (initialize_spotify_client self SpotifyClient)) (\<lambda>sp.
     pbnd (reader_call GetPlaylistInfo
             (Some (get_playlist_info sp (spotify_playlist_id (config self)))))
       (\<lambda>playlist_info.
     pbnd (reader_call GetPlaylistTracks
             (get_playlist_tracks sp (spotify_playlist_id (config self))))
       (\<lambda>tracks.
     pbnd (plift (str_item playlist_info ''name'')) (\<lambda>playlist_name.
     let ug_playlist_name = py_or target_playlist_name playlist_name;
         ug_client = UGClient (ug_username (config self)) (ug_password (config self))
                       (headless_browser (config self))
     in async_with ug_client
          (with_ug_client ug_client ug_playlist_name playlist_name tracks)))))"

text \<open>
  \<^verbatim>\<open>sync_playlist\<close>, run from a browser state with no call made yet. The handler of
  lines 125-127 turns every instance of \<^verbatim>\<open>Exception\<close> that reaches it into the result
  \<^verbatim>\<open>False\<close>.
\<close>

definition sync_playlist ::
  "playlist_syncer \<Rightarrow> base_exception + spotipy \<Rightarrow>
   (string \<Rightarrow> string \<Rightarrow> bool \<Rightarrow> 'w ug_client) \<Rightarrow> string option \<Rightarrow> 'w \<Rightarrow>
   ((base_exception + bool) \<times> 'w run) option" where
  "sync_playlist self SpotifyClient UGClient target_playlist_name w =
     ptry (sync_body self SpotifyClient UGClient target_playlist_name)
       (\<lambda>e. pret False)
       \<lparr>world = w, trace = []\<rparr>"

subsection \<open>preview\_sync\<close>

text \<open>
  Lines 151-158, then the handler of lines 160-162, which catches an instance of
  \<^verbatim>\<open>Exception\<close> and returns the empty dictionary and the empty list.
\<close>

definition preview_body ::
  "playlist_syncer \<Rightarrow> base_exception + spotipy \<Rightarrow>
   (base_exception + dict \<times> track_info list) option" where
  "preview_body self SpotifyClient =
     (case initialize_spotify_client self SpotifyClient of
        Inl e \<Rightarrow> Some (Inl e)
      | Inr sp \<Rightarrow>
          (case get_playlist_info sp (spotify_playlist_id (config self)) of
             Inl e \<Rightarrow> Some (Inl e)
           | Inr playlist_info \<Rightarrow>
               (case get_playlist_tracks sp (spotify_playlist_id (config self)) of
                  None \<Rightarrow> None
                | Some (Inl e) \<Rightarrow> Some (Inl e)
                | Some (Inr tracks) \<Rightarrow>
                    (case str_item playlist_info ''name'' of
                       Inl e \<Rightarrow> Some (Inl e)
                     | Inr _ \<Rightarrow> Some (Inr (playlist_info, tracks))))))"

definition preview_sync ::
  "playlist_syncer \<Rightarrow> base_exception + spotipy \<Rightarrow>
   (base_exception + dict \<times> track_info list) option" where
  "preview_sync self SpotifyClient =
     (case preview_body self SpotifyClient of
        None \<Rightarrow> None
      | Some (Inl (Exc e)) \<Rightarrow> Some (Inr ([], []))
      | Some (Inl (NonExc b)) \<Rightarrow> Some (Inl (NonExc b))
      | Some (Inr r) \<Rightarrow> Some (Inr r))"

section \<open>Describing runs\<close>

text \<open>
  What one iteration of the loop does to the counters and to the record of calls, given
  the outcome \<open>r\<close> of its attach attempt, and from these the run of the whole loop as a
  plain function of the browser state.
\<close>

definition counted :: "exn + bool \<Rightarrow> nat \<times> nat \<Rightarrow> nat \<times> nat" where
  "counted r c = (case r of Inr True \<Rightarrow> (fst c + 1, snd c) | _ \<Rightarrow> (fst c, snd c + 1))"

definition track_events :: "string \<Rightarrow> track_info \<Rightarrow> exn + bool \<Rightarrow> event list" where
  "track_events pl t r =
     SearchAndAddSong (name t) (artist t) pl r # (case r of Inl e \<Rightarrow> [] | Inr b \<Rightarrow> [Sleep 2])"

primrec loop_run ::
  "'w ug_client \<Rightarrow> string \<Rightarrow> track_info list \<Rightarrow> nat \<times> nat \<Rightarrow> 'w \<Rightarrow>
   (nat \<times> nat) \<times> event list \<times> 'w" where
  "loop_run ug pl [] c w = (c, [], w)"
| "loop_run ug pl (t # rest) c w =
     (case m_search_and_add_song ug (name t) (artist t) pl w of
        (r, w1) \<Rightarrow>
          (case loop_run ug pl rest (counted r c) w1 of
             (c', evs, w') \<Rightarrow> (c', track_events pl t r @ evs, w')))"

text \<open>The attach attempts recorded in a run, in order: song, artist, playlist.\<close>

fun attempts :: "event list \<Rightarrow> (string \<times> string \<times> string) list" where
  "attempts [] = []"
| "attempts (SearchAndAddSong n a p r # evs) = (n, a, p) # attempts evs"
| "attempts (ev # evs) = attempts evs"

text \<open>The attach attempts that returned \<^verbatim>\<open>True\<close>, and the others.\<close>

fun successes :: "event list \<Rightarrow> nat" where
  "successes [] = 0"
| "successes (SearchAndAddSong n a p (Inr True) # evs) = Suc (successes evs)"
| "successes (ev # evs) = successes evs"

fun failures :: "event list \<Rightarrow> nat" where
  "failures [] = 0"
| "failures (SearchAndAddSong n a p (Inr True) # evs) = failures evs"
| "failures (SearchAndAddSong n a p r # evs) = Suc (failures evs)"
| "failures (ev # evs) = failures evs"

text \<open>
  \<open>always_delayed evs\<close>: every attach attempt, whatever its outcome, is followed at once
  by the delay of 2.
\<close>

fun always_delayed :: "event list \<Rightarrow> bool" where
  "always_delayed [] = True"
| "always_delayed [SearchAndAddSong n a p r] = False"
| "always_delayed (SearchAndAddSong n a p r # ev # evs) = (ev = Sleep 2 \<and> always_delayed evs)"
| "always_delayed (ev # evs) = always_delayed evs"

text \<open>The calls that the loop over the tracks makes.\<close>

fun loop_event :: "event \<Rightarrow> bool" where
  "loop_event (SearchAndAddSong n a p r) = True"
| "loop_event (Sleep d) = True"
| "loop_event ev = False"


text \<open>The result and the record of calls of a run that returned.\<close>

definition result_of ::
  "((base_exception + 'a) \<times> 'w run) option \<Rightarrow> (base_exception + 'a) option" where
  "result_of x = map_option fst x"

definition trace_of :: "((base_exception + 'a) \<times> 'w run) option \<Rightarrow> event list option" where
  "trace_of x = map_option (\<lambda>(r, s). trace s) x"

text \<open>
  Replaying a record of calls on the services: every recorded call is made again, in
  order, on the source reader \<open>sc\<close> or on the client from the browser state reached so
  far, and its recorded outcome is compared with what the service answers. The result is
  the browser state at the end when every outcome agrees, and \<open>None\<close> otherwise. A
  delay changes nothing.
\<close>

fun replay ::
  "base_exception + spotipy \<Rightarrow> string \<Rightarrow> 'w ug_client \<Rightarrow> event list \<Rightarrow> 'w \<Rightarrow> 'w option" where
  "replay sc pid ug [] w = Some w"
| "replay sc pid ug (GetPlaylistInfo r # evs) w =
     (case sc of
        Inl e \<Rightarrow> None
      | Inr sp \<Rightarrow> if get_playlist_info sp pid = r then replay sc pid ug evs w else None)"
| "replay sc pid ug (GetPlaylistTracks r # evs) w =
     (case sc of
        Inl e \<Rightarrow> None
      | Inr sp \<Rightarrow> if get_playlist_tracks sp pid = Some r then replay sc pid ug evs w else None)"
| "replay sc pid ug (StartBrowser r # evs) w =
     (case aenter ug w of (r', w') \<Rightarrow> if r' = r then replay sc pid ug evs w' else None)"
| "replay sc pid ug (CloseBrowser # evs) w = replay sc pid ug evs (aexit ug w)"
| "replay sc pid ug (Login r # evs) w =
     (case m_login ug w of (r', w') \<Rightarrow> if r' = r then replay sc pid ug evs w' else None)"
| "replay sc pid ug (GetExistingPlaylists r # evs) w =
     (case m_get_existing_playlists ug w of
        (r', w') \<Rightarrow> if r' = r then replay sc pid ug evs w' else None)"
| "replay sc pid ug (CreatePlaylist n d r # evs) w =
     (case m_create_playlist ug n d w of
        (r', w') \<Rightarrow> if r' = r then replay sc pid ug evs w' else None)"
| "replay sc pid ug (SearchAndAddSong n a p r # evs) w =
     (case m_search_and_add_song ug n a p w of
        (r', w') \<Rightarrow> if r' = r then replay sc pid ug evs w' else None)"
| "replay sc pid ug (Sleep d # evs) w = replay sc pid ug evs w"

text \<open>Reading the text of every element of a list, in order.\<close>

primrec read_texts ::
  "('w, 'el) playwright \<Rightarrow> 'el list \<Rightarrow> (string option list, 'w) io" where
  "read_texts pw [] = ret []"
| "read_texts pw (element # rest) =
     bnd (el_text_content pw element) (\<lambda>t.
     bnd (read_texts pw rest) (\<lambda>ts. ret (t # ts)))"

text \<open>The texts that are neither null nor empty.\<close>

definition nonempty_texts :: "string option list \<Rightarrow> string list" where
  "nonempty_texts ts = filter (\<lambda>n. n \<noteq> []) (List.map_filter (\<lambda>t. t) ts)"

section \<open>Services for the examples\<close>

definition demo_track :: "string \<Rightarrow> string list \<Rightarrow> playlist_item" where
  "demo_track title artists =
     \<lparr> track = Some \<lparr> tr_type = ''track'', tr_name = title, tr_artists = artists,
                      tr_album = ''Album'', tr_id = title, tr_external_urls = [] \<rparr> \<rparr>"

definition demo_episode :: playlist_item where
  "demo_episode =
     \<lparr> track = Some \<lparr> tr_type = ''episode'', tr_name = ''Podcast'', tr_artists = [],
                      tr_album = ''Show'', tr_id = ''ep'', tr_external_urls = [] \<rparr> \<rparr>"

definition demo_playlist :: playlist_obj where
  "demo_playlist =
     \<lparr> pl_name = ''Road Trip'', pl_description = ''On the road'', pl_tracks_total = 4,
       pl_owner_display_name = ''owner'', pl_external_urls = [] \<rparr>"

definition page_one :: page where
  "page_one =
     \<lparr> items = [demo_track ''Song A'' [''Artist X''], demo_episode,
                demo_track ''Song B'' [''Artist Y'', ''Artist Z'']],
       next_url = Some ''offset=3'' \<rparr>"

definition page_two :: page where
  "page_two = \<lparr> items = [demo_track ''Song C'' [''Artist X'']], next_url = None \<rparr>"

text \<open>A service that hands out the listing in two pages.\<close>

definition demo_spotipy :: spotipy where
  "demo_spotipy =
     \<lparr> playlist = (\<lambda>playlist_id. Inr demo_playlist),
       playlist_tracks = (\<lambda>playlist_id. Inr page_one),
       sp_next = (\<lambda>r. if r = page_one then Inr (Some page_two) else Inr None) \<rparr>"

text \<open>A service with an empty playlist, and one that refuses every call.\<close>

definition empty_spotipy :: spotipy where
  "empty_spotipy =
     \<lparr> playlist = (\<lambda>playlist_id. Inr demo_playlist),
       playlist_tracks = (\<lambda>playlist_id. Inr \<lparr> items = [], next_url = None \<rparr>),
       sp_next = (\<lambda>r. Inr None) \<rparr>"




definition demo_syncer :: playlist_syncer where
  "demo_syncer =
     \<lparr> config = \<lparr> spotify_playlist_id = ''37i9'', ug_username = ''user'',
                  ug_password = ''secret'', headless_browser = True \<rparr>,
       spotify_client = None \<rparr>"

text \<open>
  A client whose methods answer as scripted: whether login succeeds, the playlists that
  exist, whether creation succeeds, and the outcome of the attach attempt for each song.
\<close>

definition scripted_client ::
  "bool \<Rightarrow> string list \<Rightarrow> bool \<Rightarrow> (string \<Rightarrow> exn + bool) \<Rightarrow> unit ug_client" where
  "scripted_client logged_in existing created attach =
     \<lparr> aenter = ret (),
       aexit = (\<lambda>w. w),
       m_login = ret logged_in,
       m_get_existing_playlists = ret existing,
       m_create_playlist = (\<lambda>n d. ret created),
       m_search_and_add_song = (\<lambda>n a p w. (attach n, w)) \<rparr>"

text \<open>Song A cannot be attached because the attempt raises, Song C because it fails.\<close>

definition demo_attach :: "string \<Rightarrow> exn + bool" where
  "demo_attach n =
     (if n = ''Song A'' then Inl (Exception ''Target closed'')
      else if n = ''Song C'' then Inr False
      else Inr True)"

definition demo_client :: "string \<Rightarrow> string \<Rightarrow> bool \<Rightarrow> unit ug_client" where
  "demo_client username password headless = scripted_client True [] True demo_attach"

definition reusing_client :: "string \<Rightarrow> string \<Rightarrow> bool \<Rightarrow> unit ug_client" where
  "reusing_client username password headless =
     scripted_client True [''Blues'', ''Road Trip''] True demo_attach"

definition lowercase_client :: "string \<Rightarrow> string \<Rightarrow> bool \<Rightarrow> unit ug_client" where
  "lowercase_client username password headless =
     scripted_client True [''road trip''] False demo_attach"

text \<open>
  A browser whose state is the address of the page it shows. \<open>present url sel\<close> tells
  whether the selector \<open>sel\<close> matches on the page at \<open>url\<close>; an element handle is the
  text of the element, and \<open>names\<close> are the texts of the playlist name elements.
\<close>

definition stub_playwright ::
  "(string \<Rightarrow> string \<Rightarrow> bool) \<Rightarrow> string option list \<Rightarrow> (string, string option) playwright" where
  "stub_playwright present names =
     \<lparr> async_playwright_start = ret (),
       chromium_launch = (\<lambda>headless. ret ()),
       browser_new_page = ret (),
       browser_close = ret (),
       playwright_stop = ret (),
       goto = (\<lambda>url w. (Inr (), url)),
       wait_for_selector =
         (\<lambda>sel timeout w. (if present w sel then Inr () else Inl (Exception ''TimeoutError''), w)),
       wait_for_timeout = (\<lambda>ms. ret ()),
       fill = (\<lambda>sel text. ret ()),
       click = (\<lambda>sel. ret ()),
       query_selector = (\<lambda>sel w. (Inr (if present w sel then Some (Some sel) else None), w)),
       query_selector_all = (\<lambda>sel. ret names),
       el_text_content = (\<lambda>el. ret el),
       el_click = (\<lambda>el. ret ()),
       el_fill = (\<lambda>el text. ret ()) \<rparr>"

text \<open>A site on which the sign-in form never renders, and one on which everything does.\<close>

definition no_form :: "string \<Rightarrow> string \<Rightarrow> bool" where
  "no_form url sel = (sel \<noteq> ''input[name='username']'')"

definition all_present :: "string \<Rightarrow> string \<Rightarrow> bool" where
  "all_present url sel = True"

definition no_entries :: "string \<Rightarrow> string \<Rightarrow> bool" where
  "no_entries url sel = (sel \<noteq> ''.playlist-item, .user-playlist'')"

text \<open>
  A site on which the search for Song A shows no results in time, while everything else
  renders.
\<close>

definition slow_search :: "string \<Rightarrow> string \<Rightarrow> bool" where
  "slow_search url sel =
     (\<not> (url = ''https://www.ultimate-guitar.com/search.php?search_type=title&value=Song A Artist X'' \<and>
         sel = ''.js-search-results, .search-results''))"

text \<open>The tracks of the example listing, as \<^verbatim>\<open>get_playlist_tracks\<close> returns them.\<close>

definition demo_tracks :: "track_info list" where
  "demo_tracks =
     [\<lparr>name = ''Song A'', artist = ''Artist X'', album = ''Album'',
       spotify_id = ''Song A'', external_urls = []\<rparr>,
      \<lparr>name = ''Song B'', artist = ''Artist Y, Artist Z'', album = ''Album'',
       spotify_id = ''Song B'', external_urls = []\<rparr>,
      \<lparr>name = ''Song C'', artist = ''Artist X'', album = ''Album'',
       spotify_id = ''Song C'', external_urls = []\<rparr>]"

section \<open>Facts about the source reader\<close>

lemma for_items_append: "for_items its tracks = tracks @ for_items its []"
proof (induction its arbitrary: tracks)
  case Nil
  show ?case by simp
next
  case (Cons item rest)
  show ?case
  proof (cases "track item")
    case None
    then show ?thesis using Cons.IH [of tracks] by simp
  next
    case (Some t)
    then show ?thesis
      using Cons.IH [of tracks] Cons.IH [of "tracks @ [mk_track_info t]"]
        Cons.IH [of "[mk_track_info t]"]
      by simp
  qed
qed

lemma track_objects_Cons:
  "track_objects (item # rest) =
     (case track item of
        None \<Rightarrow> track_objects rest
      | Some t \<Rightarrow> if tr_type t = ''track'' then t # track_objects rest else track_objects rest)"
  by (simp add: track_objects_def map_filter_def split: option.splits)

lemma for_items_track_objects: "for_items its [] = map mk_track_info (track_objects its)"
proof (induction its)
  case Nil
  show ?case by (simp add: track_objects_def map_filter_def)
next
  case (Cons item rest)
  show ?case
  proof (cases "track item")
    case None
    then show ?thesis using Cons.IH by (simp add: track_objects_Cons)
  next
    case (Some t)
    then show ?thesis
      using Cons.IH for_items_append [of rest "[mk_track_info t]"]
      by (simp add: track_objects_Cons)
  qed
qed

lemma for_items_concat:
  "concat (map (\<lambda>its. for_items its []) pages) = for_items (concat pages) []"
  by (induction pages) (simp_all add: for_items_track_objects track_objects_def map_filter_def)

lemma while_results_serves:
  "serves sp r pages \<Longrightarrow>
   while_results sp (Some r) tracks =
     Some (Inr (tracks @ concat (map (\<lambda>its. for_items its []) pages)))"
proof (induction pages arbitrary: r tracks)
  case Nil
  then show ?case by simp
next
  case (Cons its rest)
  show ?case
  proof (cases rest)
    case Nil
    with Cons.prems have "items r = its" and "\<not> truthy (next_url r)" by simp_all
    then show ?thesis
      using Nil for_items_append [of its tracks]
      by (simp add: while_results.simps [of sp "Some r"] while_results.simps [of sp None])
  next
    case (Cons its' rest')
    with Cons.prems obtain r' where
      r: "items r = its" "truthy (next_url r)" "sp_next sp r = Inr (Some r')"
      and r': "serves sp r' rest"
      by (auto split: sum.splits option.splits)
    have "while_results sp (Some r) tracks = while_results sp (Some r') (for_items its tracks)"
      using r by (simp add: while_results.simps [of sp "Some r"])
    also have "\<dots> = Some (Inr (for_items its tracks @ concat (map (\<lambda>its. for_items its []) rest)))"
      by (rule Cons.IH [OF r'])
    finally show ?thesis
      using for_items_append [of its tracks] by simp
  qed
qed

section \<open>Facts about the loop over the tracks\<close>

lemma process_track_run:
  "process_track ug pl t c s =
     (case m_search_and_add_song ug (name t) (artist t) pl (world s) of
        (r, w1) \<Rightarrow> Some (Inr (counted r c), \<lparr>world = w1, trace = trace s @ track_events pl t r\<rparr>))"
  by (cases c)
     (simp add: process_track_def ptry_def pbnd_def client_call_def sleep_def pret_def
        counted_def track_events_def split: prod.splits sum.splits bool.splits)

lemma for_tracks_run:
  "for_tracks ug pl tracks c s =
     (case loop_run ug pl tracks c (world s) of
        (c', evs, w') \<Rightarrow> Some (Inr c', \<lparr>world = w', trace = trace s @ evs\<rparr>))"
proof (induction tracks arbitrary: c s)
  case Nil
  show ?case by (simp add: pret_def)
next
  case (Cons t rest)
  show ?case
    by (simp add: pbnd_def process_track_run Cons.IH split: prod.splits)
qed

lemma attempts_append: "attempts (xs @ ys) = attempts xs @ attempts ys"
  by (induction xs rule: attempts.induct) simp_all

lemma successes_append: "successes (xs @ ys) = successes xs + successes ys"
  by (induction xs rule: successes.induct) simp_all

lemma failures_append: "failures (xs @ ys) = failures xs + failures ys"
  by (induction xs rule: failures.induct) simp_all

lemma loop_run_Cons:
  assumes "loop_run ug pl (t # rest) c w = (c', evs, w')"
  obtains r w1 evs2 where
    "m_search_and_add_song ug (name t) (artist t) pl w = (r, w1)"
    "loop_run ug pl rest (counted r c) w1 = (c', evs2, w')"
    "evs = track_events pl t r @ evs2"
  using assms by (auto split: prod.splits)

lemma track_events_simps:
  "attempts (track_events pl t r) = [(name t, artist t, pl)]"
  "successes (track_events pl t r) = (if r = Inr True then 1 else 0)"
  "failures (track_events pl t r) = (if r = Inr True then 0 else 1)"
  by (cases r; cases "projr r"; simp add: track_events_def)+

lemma loop_run_attempts:
  "loop_run ug pl tracks c w = (c', evs, w') \<Longrightarrow>
   attempts evs = map (\<lambda>t. (name t, artist t, pl)) tracks"
proof (induction tracks arbitrary: c w evs)
  case Nil
  then show ?case by simp
next
  case (Cons t rest)
  from Cons.prems obtain r w1 evs2 where
    rest: "loop_run ug pl rest (counted r c) w1 = (c', evs2, w')"
    and evs: "evs = track_events pl t r @ evs2"
    by (rule loop_run_Cons)
  show ?case
    using Cons.IH [OF rest] evs by (simp add: attempts_append track_events_simps)
qed

lemma loop_run_counters:
  "loop_run ug pl tracks c w = (c', evs, w') \<Longrightarrow>
   fst c' = fst c + successes evs \<and> snd c' = snd c + failures evs"
proof (induction tracks arbitrary: c w evs)
  case Nil
  then show ?case by simp
next
  case (Cons t rest)
  from Cons.prems obtain r w1 evs2 where
    rest: "loop_run ug pl rest (counted r c) w1 = (c', evs2, w')"
    and evs: "evs = track_events pl t r @ evs2"
    by (rule loop_run_Cons)
  have "counted r c = (if r = Inr True then (fst c + 1, snd c) else (fst c, snd c + 1))"
    by (cases r; cases "projr r"; simp add: counted_def)
  then show ?case
    using Cons.IH [OF rest] evs
    by (simp add: successes_append failures_append track_events_simps)
qed

lemma loop_run_events:
  "loop_run ug pl tracks c w = (c', evs, w') \<Longrightarrow> list_all loop_event evs"
proof (induction tracks arbitrary: c w evs)
  case Nil
  then show ?case by simp
next
  case (Cons t rest)
  from Cons.prems obtain r w1 evs2 where
    rest: "loop_run ug pl rest (counted r c) w1 = (c', evs2, w')"
    and evs: "evs = track_events pl t r @ evs2"
    by (rule loop_run_Cons)
  show ?case
    using Cons.IH [OF rest] evs by (cases r) (simp_all add: track_events_def)
qed

lemma attempts_count: "successes evs + failures evs = length (attempts evs)"
  by (induction evs rule: failures.induct) simp_all

lemma loop_run_member:
  "loop_run ug pl tracks c w = (c', evs, w') \<Longrightarrow> ev \<in> set evs \<Longrightarrow> loop_event ev"
  using loop_run_events [of ug pl tracks c w c' evs w'] by (simp add: list_all_iff)

lemmas sync_defs =
  sync_playlist_def sync_body_def async_with_def with_ug_client_def add_tracks_def
  ptry_def pbnd_def pret_def plift_def reader_call_def client_call_def for_tracks_run Let_def

lemma loop_run_only_attempts:
  assumes "loop_run ug pl tracks c w = (c', evs, w')"
  shows "(\<forall>n d x. CreatePlaylist n d x \<notin> set evs) \<and>
         (\<forall>x. GetExistingPlaylists x \<notin> set evs) \<and>
         (\<forall>x. Login x \<notin> set evs)"
  using loop_run_member [OF assms] by fastforce


section \<open>Facts about the client\<close>

lemma for_elements_read_texts:
  "for_elements pw els acc w =
     (case read_texts pw els w of
        (Inl e, w') \<Rightarrow> (Inl e, w')
      | (Inr ts, w') \<Rightarrow> (Inr (acc @ map strip (nonempty_texts ts)), w'))"
proof (induction els arbitrary: acc w)
  case Nil
  show ?case by (simp add: ret_def nonempty_texts_def map_filter_def)
next
  case (Cons el rest)
  show ?case
    by (auto simp: bnd_def ret_def Cons.IH nonempty_texts_def map_filter_def
        split: prod.splits sum.splits option.splits)
qed

lemma try_except_returns: "\<exists>b. fst (try_except m (\<lambda>e. ret v) w) = Inr b"
  by (cases "m w") (auto simp: try_except_def ret_def split: sum.splits)




lemma search_and_add_song_returns: "\<exists>b. fst (search_and_add_song pw n a p w) = Inr b"
  unfolding search_and_add_song_def by (rule try_except_returns)

section \<open>Facts about runs\<close>

lemma always_delayed_append:
  "always_delayed xs \<Longrightarrow> always_delayed ys \<Longrightarrow> always_delayed (xs @ ys)"
  by (induction xs rule: always_delayed.induct) simp_all

lemma loop_run_always_delayed:
  assumes returns: "\<And>n a p w. \<exists>b. fst (m_search_and_add_song ug n a p w) = Inr b"
  shows "loop_run ug pl tracks c w = (c', evs, w') \<Longrightarrow> always_delayed evs"
proof (induction tracks arbitrary: c w evs)
  case Nil
  then show ?case by simp
next
  case (Cons t rest)
  from Cons.prems obtain r w1 evs2 where
    call: "m_search_and_add_song ug (name t) (artist t) pl w = (r, w1)"
    and rest: "loop_run ug pl rest (counted r c) w1 = (c', evs2, w')"
    and evs: "evs = track_events pl t r @ evs2"
    by (rule loop_run_Cons)
  from returns [of "name t" "artist t" pl w] call obtain b where "r = Inr b" by auto
  then show ?case
    using Cons.IH [OF rest] evs by (simp add: track_events_def)
qed

lemma real_loop_always_delayed:
  assumes "loop_run (UltimateGuitarClient pw u pass h) pl tracks c w = (c', evs, w')"
  shows "always_delayed evs"
proof (rule loop_run_always_delayed [OF _ assms])
  fix n a p w0
  show "\<exists>b. fst (m_search_and_add_song (UltimateGuitarClient pw u pass h) n a p w0) = Inr b"
    using search_and_add_song_returns [of pw n a p w0] by (simp add: UltimateGuitarClient_def)
qed

lemma replay_append:
  "replay sc pid ug (xs @ ys) w =
     (case replay sc pid ug xs w of None \<Rightarrow> None | Some w' \<Rightarrow> replay sc pid ug ys w')"
  by (induction sc pid ug xs w rule: replay.induct)
     (auto split: sum.splits prod.splits)

lemma replay_loop:
  "loop_run ug pl tracks c w = (c', evs, w') \<Longrightarrow> replay sc pid ug evs w = Some w'"
proof (induction tracks arbitrary: c w evs)
  case Nil
  then show ?case by simp
next
  case (Cons t rest)
  from Cons.prems obtain r w1 evs2 where
    call: "m_search_and_add_song ug (name t) (artist t) pl w = (r, w1)"
    and rest: "loop_run ug pl rest (counted r c) w1 = (c', evs2, w')"
    and evs: "evs = track_events pl t r @ evs2"
    by (rule loop_run_Cons)
  show ?case
    using Cons.IH [OF rest] call evs
    by (cases r) (simp_all add: track_events_def)
qed

lemma loop_run_no_reads:
  assumes "loop_run ug pl tracks c w = (c', evs, w')"
  shows "(\<forall>x. GetPlaylistTracks x \<notin> set evs) \<and> (\<forall>x. GetPlaylistInfo x \<notin> set evs)"
  using loop_run_member [OF assms] by fastforce

lemma replay_loop_all:
  "loop_run ug pl tracks c w = (c', evs, w') \<Longrightarrow> \<forall>sc pid. replay sc pid ug evs w = Some w'"
  by (simp add: replay_loop)

lemma info_name:
  "get_playlist_info sp pid = Inr playlist_info \<Longrightarrow> \<exists>n. str_item playlist_info ''name'' = Inr n"
  by (auto simp: get_playlist_info_def str_item_def getitem_def split: sum.splits)


lemma sync_tracks_event:
  assumes "sync_playlist self SpotifyClient UGClient target_playlist_name w = Some (r, s')"
    and "GetPlaylistTracks (Inr ts) \<in> set (trace s')"
  shows "\<exists>sp playlist_info.
           initialize_spotify_client self SpotifyClient = Inr sp \<and>
           get_playlist_info sp (spotify_playlist_id (config self)) = Inr playlist_info \<and>
           get_playlist_tracks sp (spotify_playlist_id (config self)) = Some (Inr ts)"
  using assms
  by (auto simp: sync_defs
      split: sum.splits option.splits prod.splits if_splits base_exception.splits
      dest!: loop_run_no_reads)

lemma sync_without_tracks:
  assumes "sync_playlist self SpotifyClient UGClient target_playlist_name w = Some (r, s')"
    and "initialize_spotify_client self SpotifyClient = Inr sp"
    and "get_playlist_info sp (spotify_playlist_id (config self)) = Inr playlist_info"
    and "get_playlist_tracks sp (spotify_playlist_id (config self)) = Some (Inr [])"
  shows "r = Inr False"
  using assms(2,3,4) info_name [OF assms(3)] assms(1)
  by (auto simp: sync_defs
      split: sum.splits prod.splits if_splits base_exception.splits)

section \<open>Facts about the examples\<close>

lemma demo_listing: "get_playlist_tracks demo_spotipy ''37i9'' = Some (Inr demo_tracks)"
proof -
  have "serves demo_spotipy page_one [items page_one, items page_two]"
    by (simp add: demo_spotipy_def page_one_def page_two_def truthy_def)
  then have "while_results demo_spotipy (Some page_one) [] =
      Some (Inr ([] @ concat (map (\<lambda>its. for_items its []) [items page_one, items page_two])))"
    by (rule while_results_serves)
  then show ?thesis
    by (simp add: get_playlist_tracks_def demo_spotipy_def page_one_def page_two_def
        demo_track_def demo_episode_def mk_track_info_def demo_tracks_def)
qed

lemma empty_listing: "get_playlist_tracks empty_spotipy ''37i9'' = Some (Inr [])"
proof -
  have "serves empty_spotipy \<lparr>items = [], next_url = None\<rparr> [[]]"
    by (simp add: truthy_def)
  then have "while_results empty_spotipy (Some \<lparr>items = [], next_url = None\<rparr>) [] =
      Some (Inr ([] @ concat (map (\<lambda>its. for_items its []) [[]])))"
    by (rule while_results_serves)
  then show ?thesis
    by (simp add: get_playlist_tracks_def empty_spotipy_def)
qed

lemma demo_info:
  "get_playlist_info demo_spotipy ''37i9'' =
     Inr [(''name'', PyStr ''Road Trip''), (''description'', PyStr ''On the road''),
          (''total_tracks'', PyInt 4), (''owner'', PyStr ''owner''),
          (''external_urls'', PyDict [])]"
  by (simp add: get_playlist_info_def demo_spotipy_def demo_playlist_def)

lemma empty_info:
  "get_playlist_info empty_spotipy ''37i9'' =
     Inr [(''name'', PyStr ''Road Trip''), (''description'', PyStr ''On the road''),
          (''total_tracks'', PyInt 4), (''owner'', PyStr ''owner''),
          (''external_urls'', PyDict [])]"
  by (simp add: get_playlist_info_def empty_spotipy_def demo_playlist_def)

lemmas run_defs =
  sync_playlist_def sync_body_def async_with_def with_ug_client_def add_tracks_def
  process_track_def ptry_def pbnd_def pret_def plift_def reader_call_def client_call_def
  sleep_def Let_def initialize_spotify_client_def demo_syncer_def str_item_def getitem_def
  py_or_def ret_def bnd_def try_except_def result_of_def trace_of_def

lemmas client_defs =
  UltimateGuitarClient_def start_browser_def close_browser_def login_def
  get_existing_playlists_def create_playlist_def search_and_add_song_def
  stub_playwright_def strip_def isspace_def apostrophe_def


text \<open>
  Runs of the client that the source constructs: on a site where the search for Song A
  shows no results in time, and on a site where the playlist entries do not render in
  time although a playlist of the target name exists.
\<close>

lemma slow_search_run:
  "sync_playlist demo_syncer (Inr demo_spotipy)
     (UltimateGuitarClient (stub_playwright slow_search [])) None ''about:blank'' =
     Some (Inr True,
       \<lparr>world =
          ''https://www.ultimate-guitar.com/search.php?search_type=title&value=Song C Artist X'',
        trace = [GetPlaylistInfo (Inr [(''name'', PyStr ''Road Trip''),
                   (''description'', PyStr ''On the road''), (''total_tracks'', PyInt 4),
                   (''owner'', PyStr ''owner''), (''external_urls'', PyDict [])]),
                 GetPlaylistTracks (Inr demo_tracks),
                 StartBrowser (Inr ()),
                 Login (Inr True),
                 GetExistingPlaylists (Inr []),
                 CreatePlaylist ''Road Trip'' ''Synced from Spotify playlist: Road Trip''
                   (Inr True),
                 SearchAndAddSong ''Song A'' ''Artist X'' ''Road Trip'' (Inr False),
                 Sleep 2,
                 SearchAndAddSong ''Song B'' ''Artist Y, Artist Z'' ''Road Trip'' (Inr True),
                 Sleep 2,
                 SearchAndAddSong ''Song C'' ''Artist X'' ''Road Trip'' (Inr True),
                 Sleep 2,
                 CloseBrowser]\<rparr>)"
  by (simp add: run_defs client_defs demo_listing demo_info demo_tracks_def slow_search_def)


text \<open>Runs with an empty playlist, a refusing service and an interrupted one.\<close>

lemma empty_run:
  "sync_playlist demo_syncer (Inr empty_spotipy) demo_client None () =
     Some (Inr False,
       \<lparr>world = (),
        trace = [GetPlaylistInfo (Inr [(''name'', PyStr ''Road Trip''),
                   (''description'', PyStr ''On the road''), (''total_tracks'', PyInt 4),
                   (''owner'', PyStr ''owner''), (''external_urls'', PyDict [])]),
                 GetPlaylistTracks (Inr []),
                 StartBrowser (Inr ()),
                 Login (Inr True),
                 GetExistingPlaylists (Inr []),
                 CreatePlaylist ''Road Trip'' ''Synced from Spotify playlist: Road Trip''
                   (Inr True),
                 CloseBrowser]\<rparr>)"
  by (simp add: run_defs empty_listing empty_info demo_client_def scripted_client_def)



section \<open>The claims about the source reader\<close>

text \<open>
  Claim C3. When the service hands out the listing of a playlist in pages, however many,
  \<^verbatim>\<open>get_playlist_tracks\<close> follows the cursor to the last page and returns the track
  items of the first page, then those of the second, and so on: every track item once, in
  listing order. \<^verbatim>\<open>preview_sync\<close> returns this same list, next to the playlist
  information, when the information is fetched.
\<close>

theorem get_playlist_tracks_follows_pages:
  assumes "playlist_tracks sp playlist_id = Inr r" and "serves sp r pages"
  shows "get_playlist_tracks sp playlist_id =
           Some (Inr (concat (map (\<lambda>its. map mk_track_info (track_objects its)) pages))) \<and>
         (initialize_spotify_client self SpotifyClient = Inr sp \<and>
          spotify_playlist_id (config self) = playlist_id \<and>
          get_playlist_info sp playlist_id = Inr playlist_info \<longrightarrow>
            preview_sync self SpotifyClient =
              Some (Inr (playlist_info,
                concat (map (\<lambda>its. map mk_track_info (track_objects its)) pages))))"
proof -
  have tracks: "get_playlist_tracks sp playlist_id =
      Some (Inr (concat (map (\<lambda>its. map mk_track_info (track_objects its)) pages)))"
    using assms while_results_serves [of sp r pages "[]"]
    by (simp add: get_playlist_tracks_def for_items_track_objects)
  have "str_item playlist_info ''name'' \<noteq> Inl e"
    if "get_playlist_info sp playlist_id = Inr playlist_info" for e
    using that
    by (auto simp: get_playlist_info_def str_item_def getitem_def split: sum.splits)
  then show ?thesis
    using tracks
    by (auto simp: preview_sync_def preview_body_def split: sum.splits option.splits)
qed

theorem get_playlist_tracks_follows_pages_witness:
  "playlist_tracks demo_spotipy ''37i9'' = Inr page_one \<and>
   serves demo_spotipy page_one [items page_one, items page_two] \<and>
   get_playlist_tracks demo_spotipy ''37i9'' =
     Some (Inr [\<lparr>name = ''Song A'', artist = ''Artist X'', album = ''Album'',
                  spotify_id = ''Song A'', external_urls = []\<rparr>,
                \<lparr>name = ''Song B'', artist = ''Artist Y, Artist Z'', album = ''Album'',
                  spotify_id = ''Song B'', external_urls = []\<rparr>,
                \<lparr>name = ''Song C'', artist = ''Artist X'', album = ''Album'',
                  spotify_id = ''Song C'', external_urls = []\<rparr>]) \<and>
   map_option (map_sum id snd) (preview_sync demo_syncer (Inr demo_spotipy)) =
     get_playlist_tracks demo_spotipy ''37i9''"
proof -
  have a: "playlist_tracks demo_spotipy ''37i9'' = Inr page_one"
    by (simp add: demo_spotipy_def)
  have b: "serves demo_spotipy page_one [items page_one, items page_two]"
    by (simp add: demo_spotipy_def page_one_def page_two_def truthy_def)
  have c: "initialize_spotify_client demo_syncer (Inr demo_spotipy) = Inr demo_spotipy \<and>
      spotify_playlist_id (config demo_syncer) = ''37i9'' \<and>
      get_playlist_info demo_spotipy ''37i9'' =
        Inr [(''name'', PyStr ''Road Trip''), (''description'', PyStr ''On the road''),
             (''total_tracks'', PyInt 4), (''owner'', PyStr ''owner''),
             (''external_urls'', PyDict [])]"
    by (simp add: initialize_spotify_client_def demo_syncer_def get_playlist_info_def
        demo_spotipy_def demo_playlist_def)
  show ?thesis
    using get_playlist_tracks_follows_pages [OF a b, of demo_syncer "Inr demo_spotipy"] a b c
    by (simp add: page_one_def page_two_def demo_track_def demo_episode_def
        track_objects_def map_filter_def mk_track_info_def)
qed

text \<open>
  Claim C7. Of the items of the whole listing, \<^verbatim>\<open>get_playlist_tracks\<close> returns those
  whose media type is \<^verbatim>\<open>track\<close>, each of them, and no other item. In the example a
  podcast episode stands between the tracks of the first page; the three tracks are
  returned.
\<close>

theorem get_playlist_tracks_keeps_tracks_only:
  assumes "playlist_tracks sp playlist_id = Inr r" and "serves sp r pages"
  shows "get_playlist_tracks sp playlist_id =
           Some (Inr (map mk_track_info
             (filter (\<lambda>t. tr_type t = ''track'') (List.map_filter track (concat pages)))))"
proof -
  have "get_playlist_tracks sp playlist_id =
      Some (Inr (concat (map (\<lambda>its. for_items its []) pages)))"
    using assms while_results_serves [of sp r pages "[]"]
    by (simp add: get_playlist_tracks_def)
  then have "get_playlist_tracks sp playlist_id = Some (Inr (for_items (concat pages) []))"
    by (simp only: for_items_concat)
  then show ?thesis
    by (simp only: for_items_track_objects track_objects_def)
qed

theorem get_playlist_tracks_keeps_tracks_only_witness:
  "playlist_tracks demo_spotipy ''37i9'' = Inr page_one \<and>
   serves demo_spotipy page_one
     [[demo_track ''Song A'' [''Artist X''], demo_episode,
       demo_track ''Song B'' [''Artist Y'', ''Artist Z'']],
      [demo_track ''Song C'' [''Artist X'']]] \<and>
   map_option (map_sum id (map name)) (get_playlist_tracks demo_spotipy ''37i9'') =
     Some (Inr [''Song A'', ''Song B'', ''Song C''])"
proof -
  have a: "playlist_tracks demo_spotipy ''37i9'' = Inr page_one"
    by (simp add: demo_spotipy_def)
  have b: "serves demo_spotipy page_one
     [[demo_track ''Song A'' [''Artist X''], demo_episode,
       demo_track ''Song B'' [''Artist Y'', ''Artist Z'']],
      [demo_track ''Song C'' [''Artist X'']]]"
    by (simp add: demo_spotipy_def page_one_def page_two_def truthy_def)
  show ?thesis
    using get_playlist_tracks_keeps_tracks_only [OF a b] a b
    by (simp add: demo_track_def demo_episode_def map_filter_def mk_track_info_def)
qed




section \<open>The claims about the client\<close>

text \<open>
  Claim C8, as the code has it. \<^verbatim>\<open>get_existing_playlists\<close> never raises. It returns
  the empty list when the wait for the playlist entries times out, when no name element
  is found, and when reading a text raises. Otherwise it returns, in page order, the
  trimmed text of every name element whose text is neither null nor empty.
\<close>

theorem get_existing_playlists_result:
  "(\<exists>ps. fst (get_existing_playlists pw w) = Inr ps) \<and>
   (goto pw ''https://www.ultimate-guitar.com/user/playlists'' w = (Inr (), w1) \<and>
    wait_for_selector pw ''.playlist-item, .user-playlist'' 10000 w1 = (Inl e, w2) \<longrightarrow>
      get_existing_playlists pw w = (Inr [], w2)) \<and>
   (goto pw ''https://www.ultimate-guitar.com/user/playlists'' w = (Inr (), w1) \<and>
    wait_for_selector pw ''.playlist-item, .user-playlist'' 10000 w1 = (Inr (), w2) \<and>
    query_selector_all pw ''.playlist-name, .playlist-title'' w2 = (Inr els, w3) \<longrightarrow>
      (els = [] \<longrightarrow> get_existing_playlists pw w = (Inr [], w3)) \<and>
      (read_texts pw els w3 = (Inr ts, w4) \<longrightarrow>
         get_existing_playlists pw w = (Inr (map strip (nonempty_texts ts)), w4)) \<and>
      (read_texts pw els w3 = (Inl e', w4) \<longrightarrow>
         get_existing_playlists pw w = (Inr [], w4)))"
  by (auto simp: get_existing_playlists_def try_except_def bnd_def ret_def
      for_elements_read_texts split: prod.splits sum.splits)

theorem get_existing_playlists_result_witness:
  "get_existing_playlists (stub_playwright no_entries [Some ''Rock'']) ''about:blank'' =
     (Inr [], ''https://www.ultimate-guitar.com/user/playlists'') \<and>
   get_existing_playlists (stub_playwright all_present []) ''about:blank'' =
     (Inr [], ''https://www.ultimate-guitar.com/user/playlists'') \<and>
   get_existing_playlists
     (stub_playwright all_present [Some '' Rock  '', None, Some '''', Some ''Jazz''])
     ''about:blank'' =
     (Inr [''Rock'', ''Jazz''], ''https://www.ultimate-guitar.com/user/playlists'')"
  using
    get_existing_playlists_result [of "stub_playwright no_entries [Some ''Rock'']"
      "''about:blank''" "''https://www.ultimate-guitar.com/user/playlists''"
      "Exception ''TimeoutError''" "''https://www.ultimate-guitar.com/user/playlists''"]
    get_existing_playlists_result [of "stub_playwright all_present []"
      "''about:blank''" "''https://www.ultimate-guitar.com/user/playlists''" _
      "''https://www.ultimate-guitar.com/user/playlists''" "[]"
      "''https://www.ultimate-guitar.com/user/playlists''"]
    get_existing_playlists_result [of
      "stub_playwright all_present [Some '' Rock  '', None, Some '''', Some ''Jazz'']"
      "''about:blank''" "''https://www.ultimate-guitar.com/user/playlists''" _
      "''https://www.ultimate-guitar.com/user/playlists''"
      "[Some '' Rock  '', None, Some '''', Some ''Jazz'']"
      "''https://www.ultimate-guitar.com/user/playlists''"
      "[Some '' Rock  '', None, Some '''', Some ''Jazz'']"
      "''https://www.ultimate-guitar.com/user/playlists''"]
  by (simp add: stub_playwright_def no_entries_def all_present_def ret_def bnd_def
      nonempty_texts_def map_filter_def strip_def isspace_def)

text \<open>
  Claim C8 as stated says that the text of every name element is returned. A name element
  with an empty text is left out: of three elements, two names are returned.
\<close>

theorem get_existing_playlists_skips_empty_text:
  "fst (get_existing_playlists
          (stub_playwright all_present [Some ''Rock'', Some '''', Some '' Jazz ''])
          ''about:blank'') = Inr [''Rock'', ''Jazz''] \<and>
   fst (get_existing_playlists
          (stub_playwright all_present [Some ''Rock'', Some '''', Some '' Jazz ''])
          ''about:blank'') \<noteq> Inr (map strip [''Rock'', '''', '' Jazz ''])"
  by (simp add: get_existing_playlists_def try_except_def bnd_def ret_def
      stub_playwright_def all_present_def strip_def isspace_def)

section \<open>The claims about the sequencer\<close>

text \<open>
  Claim C1. The loop over the tracks returns for every list of tracks and every client,
  whether an attempt returns \<^verbatim>\<open>True\<close>, returns \<^verbatim>\<open>False\<close> or raises: nothing
  is raised out of the loop. It makes one attach attempt per track, in the order of the
  list; the counters are the number of attempts that returned \<^verbatim>\<open>True\<close> and the number
  of the others, and they add up to the number of tracks. Each iteration adds one to
  exactly one of the two counters.
\<close>

theorem attach_loop_processes_every_track:
  "(\<exists>successful_adds failed_adds evs w'.
      for_tracks ug pl tracks (0, 0) \<lparr>world = w, trace = tr\<rparr> =
        Some (Inr (successful_adds, failed_adds), \<lparr>world = w', trace = tr @ evs\<rparr>) \<and>
      attempts evs = map (\<lambda>t. (name t, artist t, pl)) tracks \<and>
      successful_adds = successes evs \<and> failed_adds = failures evs \<and>
      successful_adds + failed_adds = length tracks) \<and>
   (\<exists>c' s'. process_track ug pl t (successful, failed) s = Some (Inr c', s') \<and>
      (c' = (successful + 1, failed) \<or> c' = (successful, failed + 1)))"
proof
  obtain c evs w' where run: "loop_run ug pl tracks (0, 0) w = (c, evs, w')"
    by (cases "loop_run ug pl tracks (0, 0) w")
  have calls: "attempts evs = map (\<lambda>t. (name t, artist t, pl)) tracks"
    using run by (rule loop_run_attempts)
  have counters: "fst c = successes evs" "snd c = failures evs"
    using loop_run_counters [OF run] by simp_all
  have "successes evs + failures evs = length tracks"
    using attempts_count [of evs] calls by simp
  moreover have "for_tracks ug pl tracks (0, 0) \<lparr>world = w, trace = tr\<rparr> =
      Some (Inr (successes evs, failures evs), \<lparr>world = w', trace = tr @ evs\<rparr>)"
    using run counters by (cases c) (simp add: for_tracks_run)
  ultimately show "\<exists>successful_adds failed_adds evs w'.
      for_tracks ug pl tracks (0, 0) \<lparr>world = w, trace = tr\<rparr> =
        Some (Inr (successful_adds, failed_adds), \<lparr>world = w', trace = tr @ evs\<rparr>) \<and>
      attempts evs = map (\<lambda>t. (name t, artist t, pl)) tracks \<and>
      successful_adds = successes evs \<and> failed_adds = failures evs \<and>
      successful_adds + failed_adds = length tracks"
    using calls by blast
next
  obtain r w1 where call: "m_search_and_add_song ug (name t) (artist t) pl (world s) = (r, w1)"
    by (cases "m_search_and_add_song ug (name t) (artist t) pl (world s)")
  have "counted r (successful, failed) = (successful + 1, failed) \<or>
        counted r (successful, failed) = (successful, failed + 1)"
    by (cases r; cases "projr r"; simp add: counted_def)
  then show "\<exists>c' s'. process_track ug pl t (successful, failed) s = Some (Inr c', s') \<and>
      (c' = (successful + 1, failed) \<or> c' = (successful, failed + 1))"
    using call by (simp add: process_track_run)
qed

theorem attach_loop_processes_every_track_witness:
  "for_tracks (demo_client ''user'' ''secret'' True) ''Road Trip'' demo_tracks (0, 0)
     \<lparr>world = (), trace = []\<rparr> =
     Some (Inr (1, 2),
       \<lparr>world = (),
        trace = [SearchAndAddSong ''Song A'' ''Artist X'' ''Road Trip''
                   (Inl (Exception ''Target closed'')),
                 SearchAndAddSong ''Song B'' ''Artist Y, Artist Z'' ''Road Trip'' (Inr True),
                 Sleep 2,
                 SearchAndAddSong ''Song C'' ''Artist X'' ''Road Trip'' (Inr False),
                 Sleep 2]\<rparr>) \<and>
   (1::nat) + 2 = length demo_tracks"
  using attach_loop_processes_every_track
    [of "demo_client ''user'' ''secret'' True" "''Road Trip''" demo_tracks "()" "[]"]
  by (simp add: run_defs demo_client_def scripted_client_def demo_attach_def demo_tracks_def)

text \<open>
  Claim C2. A run of \<^verbatim>\<open>sync_playlist\<close> that returns, returns \<^verbatim>\<open>True\<close> exactly
  when at least one attach attempt returned \<^verbatim>\<open>True\<close>. The attempts are calls that the
  client answered: replayed on the source reader and on the client from the browser state
  in which the run started, every recorded call answers as recorded and the browser ends
  in the state in which the run ended. When the fetch of the tracks returned the empty
  list, the result is \<^verbatim>\<open>False\<close>.
\<close>

theorem sync_succeeds_iff_some_track_added:
  assumes "sync_playlist self SpotifyClient UGClient target_playlist_name w = Some (r, s')"
  shows "(r = Inr True) = (0 < successes (trace s')) \<and>
         replay (initialize_spotify_client self SpotifyClient)
           (spotify_playlist_id (config self))
           (UGClient (ug_username (config self)) (ug_password (config self))
              (headless_browser (config self)))
           (trace s') w = Some (world s') \<and>
         (GetPlaylistTracks (Inr []) \<in> set (trace s') \<longrightarrow> r = Inr False)"
proof -
  have result: "(r = Inr True) = (0 < successes (trace s'))"
    using assms
    by (auto simp: sync_defs successes_append
        split: sum.splits option.splits prod.splits if_splits base_exception.splits
        dest!: loop_run_counters)
  have genuine: "replay (initialize_spotify_client self SpotifyClient)
           (spotify_playlist_id (config self))
           (UGClient (ug_username (config self)) (ug_password (config self))
              (headless_browser (config self)))
           (trace s') w = Some (world s')"
    using assms
    by (auto simp: sync_defs replay_append
        split: sum.splits option.splits prod.splits if_splits base_exception.splits
        dest!: replay_loop_all)
  have "r = Inr False" if "GetPlaylistTracks (Inr []) \<in> set (trace s')"
    using sync_tracks_event [OF assms that] sync_without_tracks [OF assms] by blast
  with result genuine show ?thesis by blast
qed

theorem sync_succeeds_iff_some_track_added_witness:
  "sync_playlist demo_syncer (Inr empty_spotipy) demo_client None () =
     Some (Inr False,
       \<lparr>world = (),
        trace = [GetPlaylistInfo (Inr [(''name'', PyStr ''Road Trip''),
                   (''description'', PyStr ''On the road''), (''total_tracks'', PyInt 4),
                   (''owner'', PyStr ''owner''), (''external_urls'', PyDict [])]),
                 GetPlaylistTracks (Inr []),
                 StartBrowser (Inr ()),
                 Login (Inr True),
                 GetExistingPlaylists (Inr []),
                 CreatePlaylist ''Road Trip'' ''Synced from Spotify playlist: Road Trip''
                   (Inr True),
                 CloseBrowser]\<rparr>) \<and>
   result_of (sync_playlist demo_syncer (Inr demo_spotipy)
     (UltimateGuitarClient (stub_playwright slow_search [])) None ''about:blank'') =
     Some (Inr True) \<and>
   map_option successes
     (trace_of (sync_playlist demo_syncer (Inr demo_spotipy)
        (UltimateGuitarClient (stub_playwright slow_search [])) None ''about:blank'')) =
     Some 2"
proof -
  note empty = sync_succeeds_iff_some_track_added [OF empty_run]
  note full = sync_succeeds_iff_some_track_added [OF slow_search_run]
  show ?thesis
    using empty full empty_run slow_search_run
    by (simp add: result_of_def trace_of_def)
qed

text \<open>
  Claim C4. In every run of \<^verbatim>\<open>sync_playlist\<close> with the client that it constructs,
  every attach attempt is followed at once by the delay of 2. What is raised inside
  \<^verbatim>\<open>search_and_add_song\<close> is caught there, so the attempt returns, with success or
  with failure, and the loop reaches the delay after every track.
\<close>

theorem delay_follows_every_attempt:
  assumes "sync_playlist self SpotifyClient (UltimateGuitarClient pw) target_playlist_name w =
             Some (r, s')"
  shows "always_delayed (trace s')"
  using assms
  by (auto simp: sync_defs
      split: sum.splits option.splits prod.splits if_splits base_exception.splits
      dest!: real_loop_always_delayed intro!: always_delayed_append)

theorem delay_follows_every_attempt_witness:
  "always_delayed
     [GetPlaylistInfo (Inr [(''name'', PyStr ''Road Trip''),
        (''description'', PyStr ''On the road''), (''total_tracks'', PyInt 4),
        (''owner'', PyStr ''owner''), (''external_urls'', PyDict [])]),
      GetPlaylistTracks (Inr demo_tracks),
      StartBrowser (Inr ()),
      Login (Inr True),
      GetExistingPlaylists (Inr []),
      CreatePlaylist ''Road Trip'' ''Synced from Spotify playlist: Road Trip'' (Inr True),
      SearchAndAddSong ''Song A'' ''Artist X'' ''Road Trip'' (Inr False),
      Sleep 2,
      SearchAndAddSong ''Song B'' ''Artist Y, Artist Z'' ''Road Trip'' (Inr True),
      Sleep 2,
      SearchAndAddSong ''Song C'' ''Artist X'' ''Road Trip'' (Inr True),
      Sleep 2,
      CloseBrowser]"
  using delay_follows_every_attempt [OF slow_search_run] by simp

text \<open>
  Claim C5. In a run of \<^verbatim>\<open>sync_playlist\<close> the target name is the given name or else
  the name of the source playlist. When it is an element of the list that
  \<^verbatim>\<open>get_existing_playlists\<close> returned, compared as it is, \<^verbatim>\<open>create_playlist\<close> is
  not called. When \<^verbatim>\<open>create_playlist\<close> is called, it is called with the target name,
  and the name is not in the list. When the call does not return \<^verbatim>\<open>True\<close>, the result
  is \<^verbatim>\<open>False\<close> and no attach attempt is made.
\<close>

theorem existing_playlist_is_reused:
  assumes "sync_playlist self SpotifyClient UGClient target_playlist_name w = Some (r, s')"
    and "initialize_spotify_client self SpotifyClient = Inr sp"
    and "playlist sp (spotify_playlist_id (config self)) = Inr p"
  shows "(GetExistingPlaylists (Inr existing) \<in> set (trace s') \<and>
          py_or target_playlist_name (pl_name p) \<in> set existing \<longrightarrow>
            CreatePlaylist n d c \<notin> set (trace s')) \<and>
         (CreatePlaylist n d c \<in> set (trace s') \<longrightarrow>
            n = py_or target_playlist_name (pl_name p) \<and>
            (\<exists>listed. GetExistingPlaylists (Inr listed) \<in> set (trace s') \<and> n \<notin> set listed)) \<and>
         (CreatePlaylist n d c \<in> set (trace s') \<and> c \<noteq> Inr True \<longrightarrow>
            r = Inr False \<and> attempts (trace s') = [])"
proof -
  have nm: "str_item playlist_info ''name'' = Inr (pl_name p)"
    if "get_playlist_info sp (spotify_playlist_id (config self)) = Inr playlist_info"
    for playlist_info
    using that assms(3) by (auto simp: get_playlist_info_def str_item_def getitem_def)
  show ?thesis
    using assms(1,2) nm
    by (auto simp: sync_defs
        split: sum.splits option.splits prod.splits if_splits base_exception.splits
        dest!: loop_run_only_attempts)
qed

theorem existing_playlist_is_reused_witness:
  "sync_playlist demo_syncer (Inr demo_spotipy) reusing_client None () =
     Some (Inr True,
       \<lparr>world = (),
        trace = [GetPlaylistInfo (Inr [(''name'', PyStr ''Road Trip''),
                   (''description'', PyStr ''On the road''), (''total_tracks'', PyInt 4),
                   (''owner'', PyStr ''owner''), (''external_urls'', PyDict [])]),
                 GetPlaylistTracks (Inr demo_tracks),
                 StartBrowser (Inr ()),
                 Login (Inr True),
                 GetExistingPlaylists (Inr [''Blues'', ''Road Trip'']),
                 SearchAndAddSong ''Song A'' ''Artist X'' ''Road Trip''
                   (Inl (Exception ''Target closed'')),
                 SearchAndAddSong ''Song B'' ''Artist Y, Artist Z'' ''Road Trip'' (Inr True),
                 Sleep 2,
                 SearchAndAddSong ''Song C'' ''Artist X'' ''Road Trip'' (Inr False),
                 Sleep 2,
                 CloseBrowser]\<rparr>) \<and>
   sync_playlist demo_syncer (Inr demo_spotipy) lowercase_client None () =
     Some (Inr False,
       \<lparr>world = (),
        trace = [GetPlaylistInfo (Inr [(''name'', PyStr ''Road Trip''),
                   (''description'', PyStr ''On the road''), (''total_tracks'', PyInt 4),
                   (''owner'', PyStr ''owner''), (''external_urls'', PyDict [])]),
                 GetPlaylistTracks (Inr demo_tracks),
                 StartBrowser (Inr ()),
                 Login (Inr True),
                 GetExistingPlaylists (Inr [''road trip'']),
                 CreatePlaylist ''Road Trip'' ''Synced from Spotify playlist: Road Trip''
                   (Inr False),
                 CloseBrowser]\<rparr>) \<and>
   py_or None (pl_name demo_playlist) = ''Road Trip''"
proof -
  have reuse: "sync_playlist demo_syncer (Inr demo_spotipy) reusing_client None () =
     Some (Inr True,
       \<lparr>world = (),
        trace = [GetPlaylistInfo (Inr [(''name'', PyStr ''Road Trip''),
                   (''description'', PyStr ''On the road''), (''total_tracks'', PyInt 4),
                   (''owner'', PyStr ''owner''), (''external_urls'', PyDict [])]),
                 GetPlaylistTracks (Inr demo_tracks),
                 StartBrowser (Inr ()),
                 Login (Inr True),
                 GetExistingPlaylists (Inr [''Blues'', ''Road Trip'']),
                 SearchAndAddSong ''Song A'' ''Artist X'' ''Road Trip''
                   (Inl (Exception ''Target closed'')),
                 SearchAndAddSong ''Song B'' ''Artist Y, Artist Z'' ''Road Trip'' (Inr True),
                 Sleep 2,
                 SearchAndAddSong ''Song C'' ''Artist X'' ''Road Trip'' (Inr False),
                 Sleep 2,
                 CloseBrowser]\<rparr>)"
    by (simp add: run_defs demo_listing demo_info reusing_client_def scripted_client_def
        demo_attach_def demo_tracks_def)
  have lower: "sync_playlist demo_syncer (Inr demo_spotipy) lowercase_client None () =
     Some (Inr False,
       \<lparr>world = (),
        trace = [GetPlaylistInfo (Inr [(''name'', PyStr ''Road Trip''),
                   (''description'', PyStr ''On the road''), (''total_tracks'', PyInt 4),
                   (''owner'', PyStr ''owner''), (''external_urls'', PyDict [])]),
                 GetPlaylistTracks (Inr demo_tracks),
                 StartBrowser (Inr ()),
                 Login (Inr True),
                 GetExistingPlaylists (Inr [''road trip'']),
                 CreatePlaylist ''Road Trip'' ''Synced from Spotify playlist: Road Trip''
                   (Inr False),
                 CloseBrowser]\<rparr>)"
    by (simp add: run_defs demo_listing demo_info lowercase_client_def scripted_client_def
        demo_attach_def demo_tracks_def)
  have init: "initialize_spotify_client demo_syncer (Inr demo_spotipy) = Inr demo_spotipy"
    by (simp add: initialize_spotify_client_def demo_syncer_def)
  have pl: "playlist demo_spotipy (spotify_playlist_id (config demo_syncer)) = Inr demo_playlist"
    by (simp add: demo_spotipy_def)
  note a = existing_playlist_is_reused [OF reuse init pl,
      of "[''Blues'', ''Road Trip'']" "''Road Trip''"
         "''Synced from Spotify playlist: Road Trip''" "Inr True"]
  note b = existing_playlist_is_reused [OF lower init pl,
      of "[''road trip'']" "''Road Trip''"
         "''Synced from Spotify playlist: Road Trip''" "Inr False"]
  show ?thesis
    using a b reuse lower by (simp add: py_or_def demo_playlist_def)
qed

text \<open>
  Claim C6. In a run of \<^verbatim>\<open>sync_playlist\<close> in which \<^verbatim>\<open>login\<close> returns
  \<^verbatim>\<open>False\<close>, the result is \<^verbatim>\<open>False\<close>, no attach attempt is made, and the calls of
  the run are the two reads of the source, the start of the browser, the login and the
  closing of the browser: the source is not called after the login. \<^verbatim>\<open>login\<close> never
  raises, and it returns \<^verbatim>\<open>False\<close> when the wait for the credential form or the wait
  for the marker of a signed-in page times out.
\<close>

theorem login_failure_aborts_sync:
  "(sync_playlist self SpotifyClient UGClient target_playlist_name w = Some (r, s') \<and>
    Login (Inr False) \<in> set (trace s') \<longrightarrow>
      r = Inr False \<and> attempts (trace s') = [] \<and>
      (\<exists>playlist_info tracks.
         trace s' = [GetPlaylistInfo (Inr playlist_info), GetPlaylistTracks (Inr tracks),
                     StartBrowser (Inr ()), Login (Inr False), CloseBrowser])) \<and>
   (\<exists>b. fst (login pw username password w0) = Inr b) \<and>
   (goto pw ''https://www.ultimate-guitar.com/user/signin'' w0 = (Inr (), w1) \<and>
    wait_for_selector pw ''input[name='username']'' 10000 w1 = (Inl e, w2) \<longrightarrow>
      login pw username password w0 = (Inr False, w2)) \<and>
   (goto pw ''https://www.ultimate-guitar.com/user/signin'' w0 = (Inr (), w1) \<and>
    wait_for_selector pw ''input[name='username']'' 10000 w1 = (Inr (), w2) \<and>
    fill pw ''input[name='username']'' username w2 = (Inr (), w3) \<and>
    fill pw ''input[name='password']'' password w3 = (Inr (), w4) \<and>
    click pw ''button[type='submit']'' w4 = (Inr (), w5) \<and>
    wait_for_selector pw ''.js-header-user-menu'' 10000 w5 = (Inl e, w6) \<longrightarrow>
      fst (login pw username password w0) = Inr False)"
proof -
  have sync: "r = Inr False \<and> attempts (trace s') = [] \<and>
      (\<exists>playlist_info tracks.
         trace s' = [GetPlaylistInfo (Inr playlist_info), GetPlaylistTracks (Inr tracks),
                     StartBrowser (Inr ()), Login (Inr False), CloseBrowser])"
    if "sync_playlist self SpotifyClient UGClient target_playlist_name w = Some (r, s')"
      and "Login (Inr False) \<in> set (trace s')"
    using that
    by (auto simp: sync_defs
        split: sum.splits option.splits prod.splits if_splits base_exception.splits
        dest: loop_run_member)
  have total: "\<exists>b. fst (login pw username password w0) = Inr b"
    by (auto simp: login_def try_except_def bnd_def ret_def
        split: prod.splits sum.splits option.splits)
  have form: "login pw username password w0 = (Inr False, w2)"
    if "goto pw ''https://www.ultimate-guitar.com/user/signin'' w0 = (Inr (), w1)"
      and "wait_for_selector pw ''input[name='username']'' 10000 w1 = (Inl e, w2)"
    using that by (simp add: login_def try_except_def bnd_def ret_def)
  have marker: "fst (login pw username password w0) = Inr False"
    if "goto pw ''https://www.ultimate-guitar.com/user/signin'' w0 = (Inr (), w1)"
      and "wait_for_selector pw ''input[name='username']'' 10000 w1 = (Inr (), w2)"
      and "fill pw ''input[name='username']'' username w2 = (Inr (), w3)"
      and "fill pw ''input[name='password']'' password w3 = (Inr (), w4)"
      and "click pw ''button[type='submit']'' w4 = (Inr (), w5)"
      and "wait_for_selector pw ''.js-header-user-menu'' 10000 w5 = (Inl e, w6)"
    using that
    by (auto simp: login_def try_except_def bnd_def ret_def
        split: prod.splits sum.splits option.splits)
  from sync total form marker show ?thesis by blast
qed

theorem login_failure_aborts_sync_witness:
  "sync_playlist demo_syncer (Inr demo_spotipy)
     (UltimateGuitarClient (stub_playwright no_form [])) None ''about:blank'' =
     Some (Inr False,
       \<lparr>world = ''https://www.ultimate-guitar.com/user/signin'',
        trace = [GetPlaylistInfo (Inr [(''name'', PyStr ''Road Trip''),
                   (''description'', PyStr ''On the road''), (''total_tracks'', PyInt 4),
                   (''owner'', PyStr ''owner''), (''external_urls'', PyDict [])]),
                 GetPlaylistTracks (Inr demo_tracks),
                 StartBrowser (Inr ()),
                 Login (Inr False),
                 CloseBrowser]\<rparr>) \<and>
   wait_for_selector (stub_playwright no_form []) ''input[name='username']'' 10000
     ''https://www.ultimate-guitar.com/user/signin'' =
     (Inl (Exception ''TimeoutError''), ''https://www.ultimate-guitar.com/user/signin'') \<and>
   login (stub_playwright no_form []) ''user'' ''secret'' ''about:blank'' =
     (Inr False, ''https://www.ultimate-guitar.com/user/signin'')"
proof -
  have run: "sync_playlist demo_syncer (Inr demo_spotipy)
     (UltimateGuitarClient (stub_playwright no_form [])) None ''about:blank'' =
     Some (Inr False,
       \<lparr>world = ''https://www.ultimate-guitar.com/user/signin'',
        trace = [GetPlaylistInfo (Inr [(''name'', PyStr ''Road Trip''),
                   (''description'', PyStr ''On the road''), (''total_tracks'', PyInt 4),
                   (''owner'', PyStr ''owner''), (''external_urls'', PyDict [])]),
                 GetPlaylistTracks (Inr demo_tracks),
                 StartBrowser (Inr ()),
                 Login (Inr False),
                 CloseBrowser]\<rparr>)"
    by (simp add: run_defs client_defs demo_listing demo_info demo_tracks_def no_form_def)
  have nav: "goto (stub_playwright no_form []) ''https://www.ultimate-guitar.com/user/signin''
      ''about:blank'' = (Inr (), ''https://www.ultimate-guitar.com/user/signin'')"
    by (simp add: stub_playwright_def)
  have wait: "wait_for_selector (stub_playwright no_form []) ''input[name='username']'' 10000
     ''https://www.ultimate-guitar.com/user/signin'' =
     (Inl (Exception ''TimeoutError''), ''https://www.ultimate-guitar.com/user/signin'')"
    by (simp add: stub_playwright_def no_form_def)
  show ?thesis
    using login_failure_aborts_sync [of demo_syncer "Inr demo_spotipy"
        "UltimateGuitarClient (stub_playwright no_form [])" None "''about:blank''"
        "Inr False" _ "stub_playwright no_form []" "''user''" "''secret''" "''about:blank''"
        "''https://www.ultimate-guitar.com/user/signin''" "Exception ''TimeoutError''"
        "''https://www.ultimate-guitar.com/user/signin''"]
      run nav wait
    by simp
qed




end
